theory Spec2Isabelle
  imports Main "HOL-Library.Word"
begin

section \<open>Python values used by imap2eml.py\<close>

text \<open>
  A Python \<open>str\<close> is a sequence of Unicode code points and a \<open>bytes\<close> object a sequence
  of octets. Lengths, indexing and iteration of \<open>str\<close> count code points, so a \<open>str\<close> is
  modelled as a list of code points (natural numbers) and \<open>bytes\<close> as a list of 8-bit
  words.
\<close>

type_synonym pystr = "nat list"
type_synonym byte = "8 word"
type_synonym bytes = "byte list"

definition str :: "string \<Rightarrow> pystr" where
  \<comment> \<open>An ASCII string literal of the source, as code points.\<close>
  "str s = map of_char s"

subsection \<open>\<open>str.isalnum\<close>, \<open>str.isspace\<close>, \<open>str.strip\<close>\<close>

definition ascii_alnum :: "nat \<Rightarrow> bool" where
  \<comment> \<open>\<open>0-9\<close>, \<open>A-Z\<close>, \<open>a-z\<close>.\<close>
  "ascii_alnum c = ((48 \<le> c \<and> c \<le> 57) \<or> (65 \<le> c \<and> c \<le> 90) \<or> (97 \<le> c \<and> c \<le> 122))"

definition latin1_alnum :: "nat \<Rightarrow> bool" where
  \<comment> \<open>The code points U+0080..U+00FF that are alphabetic or numeric in the Unicode
      character database: the ordinal indicators, micro sign, superscript digits, vulgar
      fractions and the Latin-1 letters (all of U+00C0..U+00FF but the multiplication and
      division signs).\<close>
  "latin1_alnum c =
     (c = 0xAA \<or> c = 0xB2 \<or> c = 0xB3 \<or> c = 0xB5 \<or> c = 0xB9 \<or> c = 0xBA \<or>
      (0xBC \<le> c \<and> c \<le> 0xBE) \<or> (0xC0 \<le> c \<and> c \<le> 0xD6) \<or>
      (0xD8 \<le> c \<and> c \<le> 0xF6) \<or> (0xF8 \<le> c \<and> c \<le> 0xFF))"

definition isalnum :: "(nat \<Rightarrow> bool) \<Rightarrow> nat \<Rightarrow> bool" where
  \<comment> \<open>\<open>c.isalnum()\<close> of a one-character \<open>str\<close>: true when the character is alphabetic,
      decimal, digit or numeric in the Unicode character database. The table is written
      out up to U+00FF; above that it is the parameter \<open>ucd\<close>, the interpreter's table.\<close>
  "isalnum ucd c =
     (if c < 128 then ascii_alnum c else if c < 256 then latin1_alnum c else ucd c)"

definition isspace :: "nat \<Rightarrow> bool" where
  \<comment> \<open>The characters \<open>str.strip()\<close> removes: Unicode whitespace.\<close>
  "isspace c =
     ((9 \<le> c \<and> c \<le> 13) \<or> (28 \<le> c \<and> c \<le> 32) \<or> c = 0x85 \<or> c = 0xA0 \<or> c = 0x1680 \<or>
      (0x2000 \<le> c \<and> c \<le> 0x200A) \<or> c = 0x2028 \<or> c = 0x2029 \<or> c = 0x202F \<or>
      c = 0x205F \<or> c = 0x3000)"

definition strip :: "pystr \<Rightarrow> pystr" where
  \<comment> \<open>\<open>s.strip()\<close>: leading and trailing whitespace removed.\<close>
  "strip s = rev (dropWhile isspace (rev (dropWhile isspace s)))"

subsection \<open>\<open>sanitize_filename\<close> (imap2eml.py, lines 115-117)\<close>

definition sanitize_filename :: "(nat \<Rightarrow> bool) \<Rightarrow> pystr \<Rightarrow> pystr" where
  \<comment> \<open>\<open>"".join(c if c.isalnum() else "_" for c in filename)\<close>\<close>
  "sanitize_filename ucd filename =
     concat (map (\<lambda>c. if isalnum ucd c then [c] else str ''_'') filename)"

subsection \<open>\<open>bytes.split\<close>, \<open>bytes.decode\<close>, \<open>os.path.join\<close>\<close>

definition is_bspace :: "byte \<Rightarrow> bool" where
  \<comment> \<open>The ASCII whitespace \<open>bytes.split()\<close> separates at: space, \<open>\t \n \v \f \r\<close>.\<close>
  "is_bspace b = (b = 0x20 \<or> (0x09 \<le> b \<and> b \<le> 0x0D))"

fun split_from :: "bytes \<Rightarrow> bytes \<Rightarrow> bytes list" where
  "split_from cur [] = (if cur = [] then [] else [cur])"
| "split_from cur (b # bs) =
     (if is_bspace b then (if cur = [] then split_from [] bs else cur # split_from [] bs)
      else split_from (cur @ [b]) bs)"

definition bytes_split :: "bytes \<Rightarrow> bytes list" where
  \<comment> \<open>\<open>b.split()\<close>: the maximal runs of non-whitespace octets, in order.\<close>
  "bytes_split b = split_from [] b"

definition cont :: "byte \<Rightarrow> bool" where
  "cont b = (0x80 \<le> b \<and> b \<le> 0xBF)"

definition low6 :: "byte \<Rightarrow> nat" where
  "low6 b = unat b mod 64"

fun utf8_decode :: "bytes \<Rightarrow> pystr option" where
  \<comment> \<open>\<open>b.decode()\<close> and \<open>b.decode('utf-8')\<close> with strict error handling; \<open>None\<close> stands
      for UnicodeDecodeError (overlong forms, surrogates, truncated or stray octets).\<close>
  "utf8_decode [] = Some []"
| "utf8_decode (a # bs) =
     (if a < 0x80 then map_option (Cons (unat a)) (utf8_decode bs)
      else if 0xC2 \<le> a \<and> a \<le> 0xDF then
        (case bs of
           b1 # r \<Rightarrow>
             if cont b1
             then map_option (Cons (unat a mod 32 * 64 + low6 b1)) (utf8_decode r)
             else None
         | _ \<Rightarrow> None)
      else if 0xE0 \<le> a \<and> a \<le> 0xEF then
        (case bs of
           b1 # b2 # r \<Rightarrow>
             if cont b1 \<and> cont b2 \<and>
                (if a = 0xE0 then 0xA0 \<le> b1 else if a = 0xED then b1 \<le> 0x9F else True)
             then map_option (Cons (unat a mod 16 * 4096 + low6 b1 * 64 + low6 b2))
                    (utf8_decode r)
             else None
         | _ \<Rightarrow> None)
      else if 0xF0 \<le> a \<and> a \<le> 0xF4 then
        (case bs of
           b1 # b2 # b3 # r \<Rightarrow>
             if cont b1 \<and> cont b2 \<and> cont b3 \<and>
                (if a = 0xF0 then 0x90 \<le> b1 else if a = 0xF4 then b1 \<le> 0x8F else True)
             then map_option
                    (Cons (unat a mod 8 * 262144 + low6 b1 * 4096 + low6 b2 * 64 + low6 b3))
                    (utf8_decode r)
             else None
         | _ \<Rightarrow> None)
      else None)"

definition os_path_join :: "pystr \<Rightarrow> pystr \<Rightarrow> pystr" where
  \<comment> \<open>\<open>os.path.join(a, b)\<close> on a POSIX system: an absolute \<open>b\<close> replaces \<open>a\<close>; otherwise
      the two are joined by one separator unless \<open>a\<close> is empty or already ends in one.\<close>
  "os_path_join a b =
     (if take 1 b = str ''/'' then b
      else if a = [] \<or> drop (length a - 1) a = str ''/'' then a @ b
      else a @ str ''/'' @ b)"

section \<open>The world outside the script\<close>

datatype exn =
    IMAP4_error pystr
  | IndexError
  | AttributeError
  | UnicodeDecodeError
  | OtherException pystr

text \<open>
  The items of the data lists imaplib returns: a \<open>bytes\<close> object, a pair
  (response header, literal payload), or \<open>None\<close>.
\<close>

datatype resp = RBytes bytes | RTuple bytes bytes | RNone

text \<open>What the script prints, one constructor for each \<open>print\<close> of the source.\<close>

datatype report =
    Emails_will_be_saved_in pystr
  | Could_not_connect pystr pystr
  | Error_colon exn
  | Connected_and_logged_in
  | Login_failed
  | Unexpected_error_during_login exn
  | Failed_to_retrieve_mailboxes
  | Error_listing_mailboxes exn
  | Could_not_select_mailbox pystr
  | No_messages_found_in pystr
  | Failed_to_fetch_message bytes pystr
  | Saved pystr pystr
  | Error_processing_email bytes pystr exn
  | Error_accessing_mailbox pystr exn
  | Exiting_due_to_connection_issues
  | No_mailboxes_found
  | Found_mailboxes "pystr list"
  | Processing_mailbox pystr
  | Logged_out_successfully
  | Error_during_logout exn

text \<open>The calls the script makes on the IMAP library, in the order made.\<close>

datatype call =
    Call_IMAP4_SSL pystr int
  | Call_login pystr pystr
  | Call_list
  | Call_select pystr
  | Call_search
  | Call_fetch bytes
  | Call_logout

record fsys =
  dirs :: "pystr set"
  files :: "pystr \<rightharpoonup> bytes"

text \<open>
  The environment: everything the script calls and does not define. \<open>'m\<close> is the state
  of the connection object (and of the server behind it); every method returns the new
  state with its result, and \<open>Inl\<close> or \<open>Some\<close> of an \<open>exn\<close> is that exception raised.
  \<open>get_subject\<close> is \<open>email.message_from_bytes(payload, policy=policy.default)\<close> followed
  by \<open>msg.get("subject")\<close>. The three \<open>_err\<close> fields say when the file system refuses
  \<open>os.makedirs\<close>, \<open>open(path, "wb")\<close> and \<open>f.write\<close> (the latter with the number of
  octets that reached the file before the failure).
\<close>

record 'm env =
  ucd_alnum :: "nat \<Rightarrow> bool"
  py_int :: "pystr \<Rightarrow> exn + int"
  IMAP4_SSL :: "pystr \<Rightarrow> int \<Rightarrow> exn + 'm"
  imap_login :: "'m \<Rightarrow> pystr \<Rightarrow> pystr \<Rightarrow> exn option \<times> 'm"
  imap_list :: "'m \<Rightarrow> (exn + pystr \<times> resp list) \<times> 'm"
  imap_select :: "'m \<Rightarrow> pystr \<Rightarrow> (exn + pystr \<times> resp list) \<times> 'm"
  imap_search :: "'m \<Rightarrow> (exn + pystr \<times> resp list) \<times> 'm"
  imap_fetch :: "'m \<Rightarrow> bytes \<Rightarrow> (exn + pystr \<times> resp list) \<times> 'm"
  imap_logout :: "'m \<Rightarrow> exn option \<times> 'm"
  get_subject :: "bytes \<Rightarrow> exn + pystr option"
  makedirs_err :: "fsys \<Rightarrow> pystr \<Rightarrow> exn option"
  open_err :: "fsys \<Rightarrow> pystr \<Rightarrow> exn option"
  write_err :: "fsys \<Rightarrow> pystr \<Rightarrow> bytes \<Rightarrow> (exn \<times> nat) option"

text \<open>The state the script changes: the file system, its standard output, the calls made.\<close>

record sys =
  fs :: fsys
  stdout :: "report list"
  calls :: "call list"

definition py_print :: "report \<Rightarrow> sys \<Rightarrow> sys" where
  "py_print r s = s\<lparr>stdout := stdout s @ [r]\<rparr>"

definition called :: "call \<Rightarrow> sys \<Rightarrow> sys" where
  "called c s = s\<lparr>calls := calls s @ [c]\<rparr>"

definition os_makedirs :: "'m env \<Rightarrow> pystr \<Rightarrow> sys \<Rightarrow> exn option \<times> sys" where
  \<comment> \<open>\<open>os.makedirs(p, exist_ok=True)\<close>. Only the leaf directory is recorded.\<close>
  "os_makedirs env p s =
     (case makedirs_err env (fs s) p of
        Some e \<Rightarrow> (Some e, s)
      | None \<Rightarrow> (None, s\<lparr>fs := (fs s)\<lparr>dirs := insert p (dirs (fs s))\<rparr>\<rparr>))"

definition put_file :: "pystr \<Rightarrow> bytes \<Rightarrow> sys \<Rightarrow> sys" where
  "put_file p d s = s\<lparr>fs := (fs s)\<lparr>files := (files (fs s))(p \<mapsto> d)\<rparr>\<rparr>"

definition write_wb :: "'m env \<Rightarrow> pystr \<Rightarrow> bytes \<Rightarrow> sys \<Rightarrow> exn option \<times> sys" where
  \<comment> \<open>\<open>with open(p, "wb") as f: f.write(d)\<close>: opening truncates the file, writing
      fills it; a failed write leaves the octets written so far.\<close>
  "write_wb env p d s =
     (case open_err env (fs s) p of
        Some e \<Rightarrow> (Some e, s)
      | None \<Rightarrow>
          (let s1 = put_file p [] s in
           case write_err env (fs s1) p d of
             Some (e, k) \<Rightarrow> (Some e, put_file p (take k d) s1)
           | None \<Rightarrow> (None, put_file p d s1)))"

section \<open>The script\<close>

subsection \<open>\<open>get_user_inputs\<close> (lines 32-38)\<close>

text \<open>What the operator types at the four prompts, as \<open>input\<close> and \<open>getpass\<close> return it.\<close>

record typed =
  typed_server :: pystr
  typed_port :: pystr
  typed_username :: pystr
  typed_password :: pystr

definition get_user_inputs :: "typed \<Rightarrow> pystr \<times> pystr \<times> pystr \<times> pystr" where
  "get_user_inputs t =
     (let server = strip (typed_server t);
          port = (if strip (typed_port t) = [] then str ''993'' else strip (typed_port t));
          username = strip (typed_username t);
          password = strip (typed_password t)
      in (server, port, username, password))"

subsection \<open>\<open>connect_to_imap\<close> (lines 40-60)\<close>

definition connect_failed :: "pystr \<Rightarrow> pystr \<Rightarrow> exn \<Rightarrow> report" where
  \<comment> \<open>The two handlers of the first \<open>try\<close>.\<close>
  "connect_failed server port e =
     (case e of IMAP4_error _ \<Rightarrow> Could_not_connect server port | _ \<Rightarrow> Error_colon e)"

definition login_failed :: "exn \<Rightarrow> report" where
  \<comment> \<open>The two handlers of the second \<open>try\<close>.\<close>
  "login_failed e =
     (case e of IMAP4_error _ \<Rightarrow> Login_failed | _ \<Rightarrow> Unexpected_error_during_login e)"

definition connect_to_imap ::
  "'m env \<Rightarrow> pystr \<Rightarrow> pystr \<Rightarrow> pystr \<Rightarrow> pystr \<Rightarrow> sys \<Rightarrow> 'm option \<times> sys" where
  "connect_to_imap env server port username password s =
     (case py_int env port of
        Inl e \<Rightarrow> (None, py_print (connect_failed server port e) s)
      | Inr p \<Rightarrow>
          (let s1 = called (Call_IMAP4_SSL server p) s in
           case IMAP4_SSL env server p of
             Inl e \<Rightarrow> (None, py_print (connect_failed server port e) s1)
           | Inr mail \<Rightarrow>
               (let s2 = called (Call_login username password) s1 in
                case imap_login env mail username password of
                  (Some e, mail') \<Rightarrow> (None, py_print (login_failed e) s2)
                | (None, mail') \<Rightarrow> (Some mail', py_print Connected_and_logged_in s2))))"

subsection \<open>\<open>list_mailboxes\<close> (lines 62-73)\<close>

definition box_name :: "resp \<Rightarrow> exn + pystr" where
  \<comment> \<open>\<open>box.split()[-1].decode()\<close>\<close>
  "box_name box =
     (case box of
        RBytes b \<Rightarrow>
          (case bytes_split b of
             [] \<Rightarrow> Inl IndexError
           | t # ts \<Rightarrow>
               (case utf8_decode (last (t # ts)) of
                  None \<Rightarrow> Inl UnicodeDecodeError
                | Some n \<Rightarrow> Inr n))
      | _ \<Rightarrow> Inl AttributeError)"

fun comprehension :: "('a \<Rightarrow> exn + 'b) \<Rightarrow> 'a list \<Rightarrow> exn + 'b list" where
  \<comment> \<open>\<open>[f(x) for x in xs]\<close>, stopping at the first exception.\<close>
  "comprehension f [] = Inr []"
| "comprehension f (x # xs) =
     (case f x of
        Inl e \<Rightarrow> Inl e
      | Inr y \<Rightarrow> (case comprehension f xs of Inl e \<Rightarrow> Inl e | Inr ys \<Rightarrow> Inr (y # ys)))"

definition list_mailboxes :: "'m env \<Rightarrow> 'm \<Rightarrow> sys \<Rightarrow> pystr list \<times> 'm \<times> sys" where
  "list_mailboxes env mail s =
     (let s1 = called Call_list s in
      case imap_list env mail of
        (Inl e, mail') \<Rightarrow> ([], mail', py_print (Error_listing_mailboxes e) s1)
      | (Inr (status, mailboxes), mail') \<Rightarrow>
          if status = str ''OK'' then
            (case comprehension box_name mailboxes of
               Inl e \<Rightarrow> ([], mail', py_print (Error_listing_mailboxes e) s1)
             | Inr names \<Rightarrow> (names, mail', s1))
          else ([], mail', py_print Failed_to_retrieve_mailboxes s1))"

subsection \<open>\<open>download_emails\<close> (lines 75-113)\<close>

fun save_parts ::
  "'m env \<Rightarrow> pystr \<Rightarrow> pystr \<Rightarrow> bytes \<Rightarrow> resp list \<Rightarrow> sys \<Rightarrow> exn option \<times> sys" where
  \<comment> \<open>The loop \<open>for response_part in msg_data\<close> (lines 100-108); \<open>Some e\<close> is the
      exception that leaves it.\<close>
  "save_parts env mailbox mailbox_dir num [] s = (None, s)"
| "save_parts env mailbox mailbox_dir num (response_part # rest) s =
     (case response_part of
        RTuple hdr payload \<Rightarrow>
          (case get_subject env payload of
             Inl e \<Rightarrow> (Some e, s)
           | Inr found \<Rightarrow>
               (case utf8_decode num of
                  None \<Rightarrow> (Some UnicodeDecodeError, s)
                | Some n \<Rightarrow>
                    (let subject = (case found of None \<Rightarrow> str ''No_Subject'' | Some v \<Rightarrow> v);
                         filename =
                           n @ str ''_'' @ sanitize_filename (ucd_alnum env) subject @ str ''.eml''
                     in case write_wb env (os_path_join mailbox_dir filename) payload s of
                          (Some e, s') \<Rightarrow> (Some e, s')
                        | (None, s') \<Rightarrow>
                            save_parts env mailbox mailbox_dir num rest
                              (py_print (Saved mailbox filename) s'))))
      | _ \<Rightarrow> save_parts env mailbox mailbox_dir num rest s)"

definition fetch_message ::
  "'m env \<Rightarrow> pystr \<Rightarrow> pystr \<Rightarrow> bytes \<Rightarrow> 'm \<times> sys \<Rightarrow> 'm \<times> sys" where
  \<comment> \<open>One round of the loop \<open>for num in messages[0].split()\<close> (lines 94-110).\<close>
  "fetch_message env mailbox mailbox_dir num ms =
     (case ms of (mail, s) \<Rightarrow>
        (let s1 = called (Call_fetch num) s in
         case imap_fetch env mail num of
           (Inl e, mail') \<Rightarrow> (mail', py_print (Error_processing_email num mailbox e) s1)
         | (Inr (status, msg_data), mail') \<Rightarrow>
             if status \<noteq> str ''OK''
             then (mail', py_print (Failed_to_fetch_message num mailbox) s1)
             else
               (case save_parts env mailbox mailbox_dir num msg_data s1 of
                  (Some e, s2) \<Rightarrow> (mail', py_print (Error_processing_email num mailbox e) s2)
                | (None, s2) \<Rightarrow> (mail', s2))))"

definition truthy :: "resp \<Rightarrow> bool" where
  \<comment> \<open>Python's truth value: \<open>None\<close> and \<open>b""\<close> are false, a pair is true.\<close>
  "truthy x = (case x of RBytes b \<Rightarrow> b \<noteq> [] | RTuple _ _ \<Rightarrow> True | RNone \<Rightarrow> False)"

definition download_emails ::
  "'m env \<Rightarrow> pystr \<Rightarrow> pystr \<Rightarrow> 'm \<times> sys \<Rightarrow> 'm \<times> sys" where
  "download_emails env mailbox output_dir ms =
     (case ms of (mail, s) \<Rightarrow>
        (let s1 = called (Call_select mailbox) s in
         case imap_select env mail mailbox of
           (Inl e, mail1) \<Rightarrow> (mail1, py_print (Error_accessing_mailbox mailbox e) s1)
         | (Inr (status, _), mail1) \<Rightarrow>
             if status \<noteq> str ''OK''
             then (mail1, py_print (Could_not_select_mailbox mailbox) s1)
             else
               (let s2 = called Call_search s1 in
                case imap_search env mail1 of
                  (Inl e, mail2) \<Rightarrow> (mail2, py_print (Error_accessing_mailbox mailbox e) s2)
                | (Inr (status2, messages), mail2) \<Rightarrow>
                    if status2 \<noteq> str ''OK''
                    then (mail2, py_print (No_messages_found_in mailbox) s2)
                    else
                      (case messages of
                         [] \<Rightarrow> (mail2, py_print (Error_accessing_mailbox mailbox IndexError) s2)
                       | m0 # _ \<Rightarrow>
                           if \<not> truthy m0
                           then (mail2, py_print (No_messages_found_in mailbox) s2)
                           else
                             (let mailbox_dir =
                                    os_path_join output_dir (sanitize_filename (ucd_alnum env) mailbox)
                              in case os_makedirs env mailbox_dir s2 of
                                   (Some e, s3) \<Rightarrow>
                                     (mail2, py_print (Error_accessing_mailbox mailbox e) s3)
                                 | (None, s3) \<Rightarrow>
                                     (case m0 of
                                        RBytes b \<Rightarrow>
                                          fold (fetch_message env mailbox mailbox_dir)
                                            (bytes_split b) (mail2, s3)
                                      | _ \<Rightarrow>
                                          (mail2,
                                           py_print
                                             (Error_accessing_mailbox mailbox AttributeError)
                                             s3)))))))"

subsection \<open>\<open>main\<close> (lines 119-150)\<close>

definition process_mailbox :: "'m env \<Rightarrow> pystr \<Rightarrow> pystr \<Rightarrow> 'm \<times> sys \<Rightarrow> 'm \<times> sys" where
  \<comment> \<open>One round of the loop \<open>for mailbox in mailboxes\<close> (lines 141-143).\<close>
  "process_mailbox env output_dir mailbox ms =
     (case ms of (mail, s) \<Rightarrow>
        download_emails env mailbox output_dir (mail, py_print (Processing_mailbox mailbox) s))"

definition main :: "'m env \<Rightarrow> typed \<Rightarrow> fsys \<Rightarrow> exn option \<times> sys" where
  \<comment> \<open>The run from an initial file system; \<open>Some e\<close> is an exception that leaves \<open>main\<close>.\<close>
  "main env t fs0 =
     (case get_user_inputs t of (server, port, username, password) \<Rightarrow>
        (let output_dir =
               sanitize_filename (ucd_alnum env) server @ str ''_'' @
               sanitize_filename (ucd_alnum env) username
         in case os_makedirs env output_dir \<lparr>fs = fs0, stdout = [], calls = []\<rparr> of
              (Some e, s1) \<Rightarrow> (Some e, s1)
            | (None, s1) \<Rightarrow>
                (case connect_to_imap env server port username password
                        (py_print (Emails_will_be_saved_in output_dir) s1) of
                   (None, s3) \<Rightarrow> (None, py_print Exiting_due_to_connection_issues s3)
                 | (Some mail, s3) \<Rightarrow>
                     (case list_mailboxes env mail s3 of
                        (mailboxes, mail1, s4) \<Rightarrow>
                          if mailboxes = []
                          then (None, py_print No_mailboxes_found s4)
                          else
                            (case fold (process_mailbox env output_dir) mailboxes
                                    (mail1, py_print (Found_mailboxes mailboxes) s4) of
                               (mail2, s6) \<Rightarrow>
                                 (case imap_logout env mail2 of
                                    (Some e, _) \<Rightarrow>
                                      (None, py_print (Error_during_logout e)
                                               (called Call_logout s6))
                                  | (None, _) \<Rightarrow>
                                      (None, py_print Logged_out_successfully
                                               (called Call_logout s6))))))))"

section \<open>Vocabulary of the properties\<close>


fun mailbox_op :: "call \<Rightarrow> bool" where
  \<comment> \<open>The calls that operate on mailboxes: list, select, search, fetch.\<close>
  "mailbox_op Call_list = True"
| "mailbox_op (Call_select _) = True"
| "mailbox_op Call_search = True"
| "mailbox_op (Call_fetch _) = True"
| "mailbox_op _ = False"


fun is_saved :: "report \<Rightarrow> bool" where
  "is_saved (Saved _ _) = True"
| "is_saved _ = False"

definition output_root :: "'m env \<Rightarrow> typed \<Rightarrow> pystr" where
  \<comment> \<open>The value of \<open>output_dir\<close> in \<open>main\<close> (line 124).\<close>
  "output_root env t =
     (case get_user_inputs t of (server, port, username, password) \<Rightarrow>
        sanitize_filename (ucd_alnum env) server @ str ''_'' @
        sanitize_filename (ucd_alnum env) username)"

definition session :: "'m env \<Rightarrow> typed \<Rightarrow> 'm option" where
  \<comment> \<open>What \<open>connect_to_imap\<close> returns on the operator's inputs: the connection object
      after a successful connect and login, \<open>None\<close> after a failure of either.\<close>
  "session env t =
     (case get_user_inputs t of (server, port, username, password) \<Rightarrow>
        fst (connect_to_imap env server port username password
               \<lparr>fs = \<lparr>dirs = {}, files = Map.empty\<rparr>, stdout = [], calls = []\<rparr>))"


section \<open>Concrete environments\<close>

text \<open>
  A scripted server for running the script on concrete inputs: it answers \<open>list\<close>,
  \<open>select\<close>, \<open>search\<close> and \<open>fetch\<close> as its four arguments say, refuses to connect to
  an empty host name, rejects an empty password, and sits on a file system that never
  fails. Messages with a non-empty payload have the subject "Hello World", the empty
  message has none; only decimal port numbers are integers.
\<close>

definition ascii :: "string \<Rightarrow> bytes" where
  "ascii s = map of_char s"

definition decimal :: "pystr \<Rightarrow> exn + int" where
  "decimal s =
     (if s \<noteq> [] \<and> list_all (\<lambda>c. 48 \<le> c \<and> c \<le> 57) s
      then Inr (int (foldl (\<lambda>n c. 10 * n + (c - 48)) 0 s))
      else Inl (OtherException (str ''invalid literal for int()'')))"

definition subject_of :: "bytes \<Rightarrow> exn + pystr option" where
  "subject_of payload = (if payload = [] then Inr None else Inr (Some (str ''Hello World'')))"

definition scripted ::
  "(exn + pystr \<times> resp list) \<Rightarrow> (pystr \<Rightarrow> exn + pystr \<times> resp list) \<Rightarrow>
   (exn + pystr \<times> resp list) \<Rightarrow> (bytes \<Rightarrow> exn + pystr \<times> resp list) \<Rightarrow> unit env" where
  "scripted listing selecting searching fetching =
     \<lparr>ucd_alnum = (\<lambda>_. False),
      py_int = decimal,
      IMAP4_SSL = (\<lambda>host port.
        if host = [] then Inl (OtherException (str ''Name or service not known'')) else Inr ()),
      imap_login = (\<lambda>m u p.
        (if p = [] then Some (IMAP4_error (str ''LOGIN failed'')) else None, m)),
      imap_list = (\<lambda>m. (listing, m)),
      imap_select = (\<lambda>m box. (selecting box, m)),
      imap_search = (\<lambda>m. (searching, m)),
      imap_fetch = (\<lambda>m num. (fetching num, m)),
      imap_logout = (\<lambda>m. (None, m)),
      get_subject = subject_of,
      makedirs_err = (\<lambda>_ _. None),
      open_err = (\<lambda>_ _. None),
      write_err = (\<lambda>_ _ _. None)\<rparr>"

definition OK :: "resp list \<Rightarrow> exn + pystr \<times> resp list" where
  "OK d = Inr (str ''OK'', d)"

definition NO :: "exn + pystr \<times> resp list" where
  "NO = Inr (str ''NO'', [])"

definition one_message :: "resp list" where
  \<comment> \<open>A fetch response: one literal and the closing parenthesis.\<close>
  "one_message = [RTuple (ascii ''1 (RFC822 {5}'') (ascii ''Hello''), RBytes (ascii '')'')]"

definition account :: "unit env" where
  \<comment> \<open>Mailboxes INBOX, Trash and Sent; Trash cannot be selected; each mailbox holds
      messages 1 and 2, and fetching message 2 fails.\<close>
  "account =
     scripted
       (OK [RBytes (ascii ''() NIL INBOX''), RBytes (ascii ''() NIL Trash''),
            RBytes (ascii ''() NIL Sent'')])
       (\<lambda>box. if box = str ''Trash'' then NO else OK [RBytes (ascii ''2'')])
       (OK [RBytes (ascii ''1 2'')])
       (\<lambda>num. if num = ascii ''2'' then Inl (IMAP4_error (str ''FETCH aborted''))
              else OK one_message)"

definition inbox_only :: "resp list \<Rightarrow> resp list \<Rightarrow> unit env" where
  \<comment> \<open>One mailbox INBOX whose search and fetch answer as given.\<close>
  "inbox_only ids parts =
     scripted (OK [RBytes (ascii ''() NIL INBOX'')]) (\<lambda>box. OK [RBytes (ascii ''1'')])
       (OK ids) (\<lambda>num. OK parts)"

definition operator :: typed where
  "operator =
     \<lparr>typed_server = str ''imap.test'', typed_port = str [],
      typed_username = str ''u@test'', typed_password = str '' secret''\<rparr>"

definition no_files :: fsys where
  "no_files = \<lparr>dirs = {}, files = Map.empty\<rparr>"

definition fresh :: sys where
  "fresh = \<lparr>fs = no_files, stdout = [], calls = []\<rparr>"

section \<open>Properties\<close>

lemma str_underscore: "str ''_'' = [95]"
  by (simp add: str_def)

lemma sanitize_filename_map:
  "sanitize_filename ucd s = map (\<lambda>c. if isalnum ucd c then c else 95) s"
  by (induction s) (simp_all add: sanitize_filename_def str_underscore)

lemma not_isalnum_underscore: "\<not> isalnum ucd 95"
  by (simp add: isalnum_def ascii_alnum_def)

text \<open>
  C8. For every string \<open>s\<close>, sanitising twice gives the same result as sanitising once,
  and the sanitised string has as many characters as \<open>s\<close>.
\<close>

theorem sanitize_filename_idempotent_length:
  "sanitize_filename ucd (sanitize_filename ucd s) = sanitize_filename ucd s \<and>
   length (sanitize_filename ucd s) = length s"
  by (simp add: sanitize_filename_map not_isalnum_underscore)

subsection \<open>The sanitizer's characters\<close>

lemma isalnum_ascii: "c < 128 \<Longrightarrow> isalnum ucd c = ascii_alnum c"
  by (simp add: isalnum_def)

text \<open>
  C7 (as amended). \<open>sanitize_filename\<close> keeps every character for which Python's
  \<open>str.isalnum\<close> holds and replaces every other character by an underscore, position by
  position. \<open>str.isalnum\<close> follows the Unicode character database, so the characters
  kept are the ASCII letters and digits and also the non-ASCII letters and numerals; the
  result consists of alphanumeric characters in that sense and underscores, and for an
  input of ASCII characters only, of ASCII letters, ASCII digits and underscores only.
\<close>

theorem sanitize_filename_characters:
  "length (sanitize_filename ucd s) = length s \<and>
   (\<forall>i<length s. sanitize_filename ucd s ! i = (if isalnum ucd (s ! i) then s ! i else 95)) \<and>
   (\<forall>c\<in>set (sanitize_filename ucd s). isalnum ucd c \<or> c = 95) \<and>
   ((\<forall>c\<in>set s. c < 128) \<longrightarrow>
      (\<forall>c\<in>set (sanitize_filename ucd s). ascii_alnum c \<or> c = 95))"
  by (auto simp: sanitize_filename_map isalnum_ascii)

theorem sanitize_filename_characters_witness:
  "sanitize_filename (\<lambda>_. False) (str ''a.b@example.com'') = str ''a_b_example_com'' \<and>
   list_all (\<lambda>c. ascii_alnum c \<or> c = 95)
     (sanitize_filename (\<lambda>_. False) (str ''a.b@example.com''))"
  using sanitize_filename_characters [of "\<lambda>_. False" "str ''a.b@example.com''"]
  by (simp add: sanitize_filename_map str_def isalnum_def ascii_alnum_def)

text \<open>
  The claim as the specification words it (only ASCII letters and digits are kept) fails
  on the one-character string U+00E9, a Latin small letter e with acute accent, which
  \<open>str.isalnum\<close> accepts: the sanitizer returns it unchanged.
\<close>

theorem sanitize_filename_not_ascii_only:
  "\<not> (\<forall>c\<in>set (sanitize_filename (\<lambda>_. False) [0xE9]). ascii_alnum c \<or> c = 95)"
  by (simp add: sanitize_filename_map isalnum_def ascii_alnum_def latin1_alnum_def)

subsection \<open>Stripping, splitting, comprehensions\<close>

lemma dropWhile_hd: "dropWhile P xs \<noteq> [] \<Longrightarrow> \<not> P (hd (dropWhile P xs))"
  by (simp add: hd_dropWhile)

lemma strip_ends:
  assumes "strip s \<noteq> []"
  shows "\<not> isspace (hd (strip s))" and "\<not> isspace (last (strip s))"
proof -
  let ?d = "dropWhile isspace s"
  let ?r = "dropWhile isspace (rev ?d)"
  from assms have r: "?r \<noteq> []" by (simp add: strip_def)
  have d: "?d \<noteq> []"
  proof
    assume "?d = []"
    then have "?r = []" by (simp only: rev.simps dropWhile.simps)
    with r show False by simp
  qed
  have "\<not> isspace (hd ?r)" using r by (rule dropWhile_hd)
  then show "\<not> isspace (last (strip s))" using r by (simp add: strip_def last_rev)
  obtain ys where ys: "rev ?d = ys @ ?r"
    by (metis takeWhile_dropWhile_id)
  have "last ?r = last (rev ?d)" using r ys by (metis last_appendR)
  also have "\<dots> = hd ?d" using d by (simp add: last_rev)
  finally have "hd (strip s) = hd ?d" using r by (simp add: strip_def hd_rev)
  then show "\<not> isspace (hd (strip s))" using dropWhile_hd [OF d] by simp
qed

lemma strip_changes:
  assumes "s \<noteq> []" and "isspace (hd s) \<or> isspace (last s)"
  shows "strip s \<noteq> s"
proof
  assume eq: "strip s = s"
  with assms(1) have "strip s \<noteq> []" by simp
  from strip_ends [OF this] eq assms(2) show False by simp
qed

lemma split_from_empty:
  "split_from cur b = [] \<longleftrightarrow> cur = [] \<and> (\<forall>x\<in>set b. is_bspace x)"
  by (induction cur b rule: split_from.induct) auto

lemma bytes_split_empty: "bytes_split b = [] \<longleftrightarrow> (\<forall>x\<in>set b. is_bspace x)"
  by (simp add: bytes_split_def split_from_empty)

lemma comprehension_fails:
  "x \<in> set xs \<Longrightarrow> f x = Inl e \<Longrightarrow> \<exists>e'. comprehension f xs = Inl e'"
  by (induction xs) (auto split: sum.splits)

subsection \<open>Unfolding the model on concrete inputs\<close>

lemmas model_defs =
  main_def get_user_inputs_def connect_to_imap_def list_mailboxes_def download_emails_def
  process_mailbox_def fetch_message_def os_makedirs_def write_wb_def put_file_def
  py_print_def called_def box_name_def truthy_def os_path_join_def
  connect_failed_def login_failed_def
  sanitize_filename_map isalnum_def ascii_alnum_def latin1_alnum_def
  strip_def isspace_def bytes_split_def is_bspace_def cont_def low6_def str_def Let_def

lemmas demo_defs =
  scripted_def account_def inbox_only_def operator_def no_files_def fresh_def OK_def NO_def
  one_message_def ascii_def decimal_def subject_of_def
subsection \<open>What each step changes\<close>

lemma py_print_simps [simp]:
  "fs (py_print r s) = fs s" "calls (py_print r s) = calls s"
  "stdout (py_print r s) = stdout s @ [r]"
  by (simp_all add: py_print_def)

lemma called_simps [simp]:
  "fs (called c s) = fs s" "calls (called c s) = calls s @ [c]"
  "stdout (called c s) = stdout s"
  by (simp_all add: called_def)

lemma put_file_simps [simp]:
  "calls (put_file p d s) = calls s" "stdout (put_file p d s) = stdout s"
  "dirs (fs (put_file p d s)) = dirs (fs s)"
  "files (fs (put_file p d s)) = (files (fs s))(p \<mapsto> d)"
  by (simp_all add: put_file_def)

lemma write_wb_keeps:
  "write_wb env p d s = (r, s') \<Longrightarrow>
     calls s' = calls s \<and> stdout s' = stdout s \<and> dirs (fs s') = dirs (fs s)"
  by (auto simp: write_wb_def Let_def split: option.splits prod.splits)

lemma os_makedirs_keeps:
  "os_makedirs env p s = (r, s') \<Longrightarrow>
     calls s' = calls s \<and> stdout s' = stdout s \<and> files (fs s') = files (fs s)"
  by (auto simp: os_makedirs_def split: option.splits)

subsection \<open>The calls made\<close>

lemma save_parts_calls:
  "save_parts env mailbox mailbox_dir num parts s = (r, s') \<Longrightarrow> calls s' = calls s"
proof (induction parts arbitrary: s)
  case Nil
  then show ?case by simp
next
  case (Cons part parts)
  then show ?case
    by (auto simp: Let_def dest!: write_wb_keeps
             split: resp.splits sum.splits option.splits prod.splits)
qed

lemma fetch_message_calls:
  "calls (snd (fetch_message env mailbox mailbox_dir num ms)) = calls (snd ms) @ [Call_fetch num]"
  by (cases ms)
     (auto simp: fetch_message_def Let_def dest!: save_parts_calls
           split: sum.splits option.splits prod.splits)

lemma fold_fetch_message_calls:
  "calls (snd (fold (fetch_message env mailbox mailbox_dir) nums ms)) =
     calls (snd ms) @ map Call_fetch nums"
  by (induction nums arbitrary: ms) (simp_all add: fetch_message_calls)

lemma download_emails_calls:
  "\<exists>tr. calls (snd (download_emails env mailbox output_dir ms)) =
          calls (snd ms) @ Call_select mailbox # tr \<and>
        set tr \<subseteq> insert Call_search (range Call_fetch)"
  by (cases ms)
     (auto simp: download_emails_def Let_def fold_fetch_message_calls
           dest!: os_makedirs_keeps
           split: sum.splits option.splits prod.splits list.splits resp.splits)

lemma download_emails_filter:
  assumes "\<not> P Call_search" and "\<And>n. \<not> P (Call_fetch n)"
  shows "filter P (calls (snd (download_emails env mailbox output_dir ms))) =
           filter P (calls (snd ms)) @ filter P [Call_select mailbox]"
proof -
  obtain tr where tr:
    "calls (snd (download_emails env mailbox output_dir ms)) =
       calls (snd ms) @ Call_select mailbox # tr"
    "set tr \<subseteq> insert Call_search (range Call_fetch)"
    using download_emails_calls by blast
  have "filter P tr = []"
    using tr(2) assms by (auto simp: filter_empty_conv)
  with tr(1) show ?thesis by simp
qed

lemma process_mailbox_filter:
  assumes "\<not> P Call_search" and "\<And>n. \<not> P (Call_fetch n)"
  shows "filter P (calls (snd (process_mailbox env output_dir mailbox ms))) =
           filter P (calls (snd ms)) @ filter P [Call_select mailbox]"
proof (cases ms)
  case (Pair mail s)
  show ?thesis
    using download_emails_filter
      [of P env mailbox output_dir "(mail, py_print (Processing_mailbox mailbox) s)", OF assms]
      Pair
    by (simp add: process_mailbox_def)
qed

lemma fold_process_mailbox_filter:
  assumes "\<not> P Call_search" and "\<And>n. \<not> P (Call_fetch n)"
  shows "filter P (calls (snd (fold (process_mailbox env output_dir) mailboxes ms))) =
           filter P (calls (snd ms)) @ filter P (map Call_select mailboxes)"
proof (induction mailboxes arbitrary: ms)
  case Nil
  show ?case by simp
next
  case (Cons mailbox mailboxes)
  show ?case
    using Cons.IH [of "process_mailbox env output_dir mailbox ms"]
      process_mailbox_filter [of P env output_dir mailbox ms, OF assms]
    by simp
qed


subsection \<open>Errors never stop the export\<close>


subsection \<open>Connecting and listing\<close>

lemma connect_to_imap_effect:
  "connect_to_imap env server port username password s = (r, s') \<Longrightarrow>
     fs s' = fs s \<and>
     (\<exists>tr. calls s' = calls s @ tr \<and>
           set tr \<subseteq> insert (Call_login username password) (range (Call_IMAP4_SSL server))) \<and>
     (\<exists>x. stdout s' = stdout s @ [x])"
  by (auto simp: connect_to_imap_def Let_def split: sum.splits prod.splits option.splits)

lemma connect_to_imap_result:
  "fst (connect_to_imap env server port username password s) =
   fst (connect_to_imap env server port username password s')"
  by (auto simp: connect_to_imap_def Let_def split: sum.splits prod.splits option.splits)

lemma session_None_iff:
  assumes "get_user_inputs t = (server, port, username, password)"
  shows "session env t = None \<longleftrightarrow>
     (\<exists>e. py_int env port = Inl e) \<or>
     (\<exists>n e. py_int env port = Inr n \<and> IMAP4_SSL env server n = Inl e) \<or>
     (\<exists>n mail e mail'. py_int env port = Inr n \<and> IMAP4_SSL env server n = Inr mail \<and>
        imap_login env mail username password = (Some e, mail'))"
  using assms
  by (auto simp: session_def connect_to_imap_def Let_def
           split: sum.splits prod.splits option.splits)

lemma connect_to_imap_failed:
  "connect_to_imap env server port username password s = (None, s') \<Longrightarrow>
     \<exists>e. stdout s' = stdout s @ [connect_failed server port e] \<or>
         stdout s' = stdout s @ [login_failed e]"
  by (auto simp: connect_to_imap_def Let_def split: sum.splits prod.splits option.splits)

lemma list_mailboxes_effect:
  "list_mailboxes env mail s = (names, mail', s') \<Longrightarrow>
     fs s' = fs s \<and> calls s' = calls s @ [Call_list]"
  by (auto simp: list_mailboxes_def Let_def split: sum.splits prod.splits if_splits)

lemma list_mailboxes_result:
  "fst (list_mailboxes env mail s) = fst (list_mailboxes env mail s')"
  by (auto simp: list_mailboxes_def Let_def split: sum.splits prod.splits if_splits)

text \<open>
  C5. If connecting or authenticating fails (\<open>session\<close> is \<open>None\<close>: the port is not an
  integer, the connection cannot be opened, or the login is refused, whatever the
  exception), \<open>main\<close> makes no list, select, search or fetch call (nor a logout), and,
  unless creating the output directory has already failed, it ends after printing the
  failure and the line that it exits due to connection issues.
\<close>

theorem connection_failure_aborts:
  assumes "get_user_inputs t = (server, port, username, password)"
    and "session env t = None"
  shows "(\<forall>c\<in>set (calls (snd (main env t fs0))). \<not> mailbox_op c \<and> c \<noteq> Call_logout) \<and>
         (fst (main env t fs0) = None \<longrightarrow>
            (\<exists>e. stdout (snd (main env t fs0)) =
                    [Emails_will_be_saved_in (output_root env t),
                     connect_failed server port e, Exiting_due_to_connection_issues] \<or>
                  stdout (snd (main env t fs0)) =
                    [Emails_will_be_saved_in (output_root env t),
                     login_failed e, Exiting_due_to_connection_issues]))"
proof (cases "os_makedirs env (output_root env t) \<lparr>fs = fs0, stdout = [], calls = []\<rparr>")
  case (Pair r s1)
  note mk = os_makedirs_keeps [OF Pair]
  show ?thesis
  proof (cases r)
    case (Some e)
    with Pair assms(1) have "main env t fs0 = (Some e, s1)"
      by (simp add: main_def output_root_def)
    with mk show ?thesis by simp
  next
    case None
    let ?s2 = "py_print (Emails_will_be_saved_in (output_root env t)) s1"
    obtain r' s3 where c: "connect_to_imap env server port username password ?s2 = (r', s3)"
      by (cases "connect_to_imap env server port username password ?s2") auto
    have "r' = None"
      using assms c connect_to_imap_result [of env server port username password ?s2]
      by (simp add: session_def)
    with c have c': "connect_to_imap env server port username password ?s2 = (None, s3)"
      by simp
    have m: "main env t fs0 = (None, py_print Exiting_due_to_connection_issues s3)"
      using Pair None assms(1) c' by (simp add: main_def output_root_def)
    obtain tr where tr: "calls s3 = tr"
      "set tr \<subseteq> insert (Call_login username password) (range (Call_IMAP4_SSL server))"
      using connect_to_imap_effect [OF c'] mk by auto
    have calls: "\<forall>c\<in>set (calls s3). \<not> mailbox_op c \<and> c \<noteq> Call_logout"
      using tr by auto
    from connect_to_imap_failed [OF c'] mk
    have "\<exists>e. stdout s3 = [Emails_will_be_saved_in (output_root env t),
                            connect_failed server port e] \<or>
               stdout s3 = [Emails_will_be_saved_in (output_root env t), login_failed e]"
      by simp
    with m calls show ?thesis by auto
  qed
qed

theorem connection_failure_aborts_witness:
  "session account (operator\<lparr>typed_server := str ''  ''\<rparr>) = None \<and>
   main account (operator\<lparr>typed_server := str ''  ''\<rparr>) no_files =
     (None,
      \<lparr>fs = \<lparr>dirs = {str ''_u_test''}, files = Map.empty\<rparr>,
       stdout = [Emails_will_be_saved_in (str ''_u_test''),
                 Error_colon (OtherException (str ''Name or service not known'')),
                 Exiting_due_to_connection_issues],
       calls = [Call_IMAP4_SSL [] 993]\<rparr>)"
  using connection_failure_aborts
    [of "operator\<lparr>typed_server := str ''  ''\<rparr>" "[]" "str ''993''" "str ''u@test''"
        "str ''secret''" account no_files]
  by (simp add: model_defs demo_defs session_def output_root_def)
subsection \<open>The run after a successful login\<close>

lemma box_name_blank: "\<forall>x\<in>set b. is_bspace x \<Longrightarrow> box_name (RBytes b) = Inl IndexError"
  using bytes_split_empty [of b] by (simp add: box_name_def)

lemma list_mailboxes_blank:
  assumes "imap_list env mail = (Inr (str ''OK'', boxes), mail')"
    and "RBytes b \<in> set boxes" and "\<forall>x\<in>set b. is_bspace x"
  shows "\<exists>e. list_mailboxes env mail s =
           ([], mail', py_print (Error_listing_mailboxes e) (called Call_list s))"
proof -
  obtain e where "comprehension box_name boxes = Inl e"
    using comprehension_fails [of "RBytes b" boxes box_name IndexError]
      assms(2) box_name_blank [OF assms(3)] by blast
  with assms(1) have "list_mailboxes env mail s =
           ([], mail', py_print (Error_listing_mailboxes e) (called Call_list s))"
    by (simp add: list_mailboxes_def)
  then show ?thesis by blast
qed

lemma main_connected:
  assumes "get_user_inputs t = (server, port, username, password)"
    and "session env t = Some mail"
    and "os_makedirs env (output_root env t) \<lparr>fs = fs0, stdout = [], calls = []\<rparr> = (None, s1)"
  obtains s3 where
    "connect_to_imap env server port username password
       (py_print (Emails_will_be_saved_in (output_root env t)) s1) = (Some mail, s3)"
    and "main env t fs0 =
      (case list_mailboxes env mail s3 of
         (mailboxes, mail1, s4) \<Rightarrow>
           if mailboxes = [] then (None, py_print No_mailboxes_found s4)
           else
             (case fold (process_mailbox env (output_root env t)) mailboxes
                     (mail1, py_print (Found_mailboxes mailboxes) s4) of
                (mail2, s6) \<Rightarrow>
                  (case imap_logout env mail2 of
                     (Some e, _) \<Rightarrow>
                       (None, py_print (Error_during_logout e) (called Call_logout s6))
                   | (None, _) \<Rightarrow>
                       (None, py_print Logged_out_successfully (called Call_logout s6)))))"
proof -
  let ?s2 = "py_print (Emails_will_be_saved_in (output_root env t)) s1"
  obtain r s3 where c: "connect_to_imap env server port username password ?s2 = (r, s3)"
    by (cases "connect_to_imap env server port username password ?s2") auto
  have "r = Some mail"
    using assms(1,2) c connect_to_imap_result [of env server port username password ?s2]
    by (simp add: session_def)
  with c have c': "connect_to_imap env server port username password ?s2 = (Some mail, s3)"
    by simp
  have "main env t fs0 =
      (case list_mailboxes env mail s3 of
         (mailboxes, mail1, s4) \<Rightarrow>
           if mailboxes = [] then (None, py_print No_mailboxes_found s4)
           else
             (case fold (process_mailbox env (output_root env t)) mailboxes
                     (mail1, py_print (Found_mailboxes mailboxes) s4) of
                (mail2, s6) \<Rightarrow>
                  (case imap_logout env mail2 of
                     (Some e, _) \<Rightarrow>
                       (None, py_print (Error_during_logout e) (called Call_logout s6))
                   | (None, _) \<Rightarrow>
                       (None, py_print Logged_out_successfully (called Call_logout s6)))))"
    using assms(1,3) c' by (simp add: main_def output_root_def cong: if_cong)
  with c' that show thesis by blast
qed

text \<open>
  C9. When the list command succeeds but one of its entries is empty or consists of
  whitespace only, taking the last token of that entry raises IndexError, the handler of
  \<open>list_mailboxes\<close> catches it, and the function returns the empty list whatever the
  other entries are. \<open>main\<close>, once logged in, then prints that no mailboxes were found
  and returns; its last call on the connection is the list command.
\<close>

theorem blank_entry_empties_list:
  assumes "get_user_inputs t = (server, port, username, password)"
    and "session env t = Some mail"
    and "imap_list env mail = (Inr (str ''OK'', boxes), mail')"
    and "RBytes b \<in> set boxes" and "\<forall>x\<in>set b. is_bspace x"
  shows "fst (list_mailboxes env mail s) = [] \<and>
         (fst (main env t fs0) = None \<longrightarrow>
            (\<exists>pre e. stdout (snd (main env t fs0)) =
                        pre @ [Error_listing_mailboxes e, No_mailboxes_found]) \<and>
            (\<exists>pre. calls (snd (main env t fs0)) = pre @ [Call_list]))"
proof -
  have l: "\<exists>e. list_mailboxes env mail s =
             ([], mail', py_print (Error_listing_mailboxes e) (called Call_list s))" for s
    using list_mailboxes_blank [OF assms(3,4,5)] .
  have "fst (list_mailboxes env mail s) = []" using l [of s] by auto
  moreover have "fst (main env t fs0) = None \<longrightarrow>
            (\<exists>pre e. stdout (snd (main env t fs0)) =
                        pre @ [Error_listing_mailboxes e, No_mailboxes_found]) \<and>
            (\<exists>pre. calls (snd (main env t fs0)) = pre @ [Call_list])"
  proof (cases "os_makedirs env (output_root env t) \<lparr>fs = fs0, stdout = [], calls = []\<rparr>")
    case (Pair r s1)
    show ?thesis
    proof (cases r)
      case (Some e)
      with Pair assms(1) have "main env t fs0 = (Some e, s1)"
        by (simp add: main_def output_root_def)
      then show ?thesis by simp
    next
      case None
      with Pair obtain s3 where m: "main env t fs0 =
        (case list_mailboxes env mail s3 of
           (mailboxes, mail1, s4) \<Rightarrow>
             if mailboxes = [] then (None, py_print No_mailboxes_found s4)
             else
               (case fold (process_mailbox env (output_root env t)) mailboxes
                       (mail1, py_print (Found_mailboxes mailboxes) s4) of
                  (mail2, s6) \<Rightarrow>
                    (case imap_logout env mail2 of
                       (Some e, _) \<Rightarrow>
                         (None, py_print (Error_during_logout e) (called Call_logout s6))
                     | (None, _) \<Rightarrow>
                         (None, py_print Logged_out_successfully (called Call_logout s6)))))"
        using main_connected [OF assms(1,2)] by blast
      obtain e where "list_mailboxes env mail s3 =
             ([], mail', py_print (Error_listing_mailboxes e) (called Call_list s3))"
        using l [of s3] by blast
      with m have "main env t fs0 =
          (None, py_print No_mailboxes_found
                   (py_print (Error_listing_mailboxes e) (called Call_list s3)))"
        by simp
      then show ?thesis by simp
    qed
  qed
  ultimately show ?thesis by blast
qed

theorem blank_entry_empties_list_witness:
  "fst (list_mailboxes
          (scripted (OK [RBytes (ascii ''() NIL INBOX''), RBytes (ascii '' '')])
             (\<lambda>_. OK []) (OK []) (\<lambda>_. OK []))
          () fresh) = [] \<and>
   fst (list_mailboxes
          (scripted (OK [RBytes (ascii ''() NIL INBOX'')]) (\<lambda>_. OK []) (OK []) (\<lambda>_. OK []))
          () fresh) = [str ''INBOX''] \<and>
   main (scripted (OK [RBytes (ascii ''() NIL INBOX''), RBytes (ascii '' '')])
           (\<lambda>_. OK []) (OK []) (\<lambda>_. OK []))
     operator no_files =
     (None,
      \<lparr>fs = \<lparr>dirs = {str ''imap_test_u_test''}, files = Map.empty\<rparr>,
       stdout = [Emails_will_be_saved_in (str ''imap_test_u_test''), Connected_and_logged_in,
                 Error_listing_mailboxes IndexError, No_mailboxes_found],
       calls = [Call_IMAP4_SSL (str ''imap.test'') 993,
                Call_login (str ''u@test'') (str ''secret''), Call_list]\<rparr>)"
  using blank_entry_empties_list
    [of operator "str ''imap.test''" "str ''993''" "str ''u@test''" "str ''secret''"
        "scripted (OK [RBytes (ascii ''() NIL INBOX''), RBytes (ascii '' '')])
           (\<lambda>_. OK []) (OK []) (\<lambda>_. OK [])"
        "()" "[RBytes (ascii ''() NIL INBOX''), RBytes (ascii '' '')]" "()" "ascii '' ''"
        fresh no_files]
  by (simp add: model_defs demo_defs session_def output_root_def)

subsection \<open>The calls of a whole run\<close>

lemma filter_map_select_empty:
  "(\<And>m. \<not> P (Call_select m)) \<Longrightarrow> filter P (map Call_select xs) = []"
  by (induction xs) simp_all

lemma main_calls_outside_export:
  assumes inputs: "get_user_inputs t = (server, port, username, password)"
    and P: "\<not> P Call_list" "\<not> P Call_search" "\<And>n. \<not> P (Call_fetch n)"
      "\<And>m. \<not> P (Call_select m)"
  shows "\<exists>tr. set tr \<subseteq> insert (Call_login username password) (range (Call_IMAP4_SSL server)) \<and>
           (filter P (calls (snd (main env t fs0))) = filter P tr \<or>
            filter P (calls (snd (main env t fs0))) = filter P tr @ filter P [Call_logout])"
proof (cases "os_makedirs env (output_root env t) \<lparr>fs = fs0, stdout = [], calls = []\<rparr>")
  case (Pair r s1)
  note mk = os_makedirs_keeps [OF Pair]
  show ?thesis
  proof (cases r)
    case (Some e)
    with Pair inputs have "main env t fs0 = (Some e, s1)"
      by (simp add: main_def output_root_def)
    with mk have "filter P (calls (snd (main env t fs0))) = filter P []" by simp
    then show ?thesis by (intro exI [of _ "[]"]) simp
  next
    case None
    let ?s2 = "py_print (Emails_will_be_saved_in (output_root env t)) s1"
    obtain r' s3 where c: "connect_to_imap env server port username password ?s2 = (r', s3)"
      by (cases "connect_to_imap env server port username password ?s2") auto
    obtain tr where tr: "calls s3 = tr"
      "set tr \<subseteq> insert (Call_login username password) (range (Call_IMAP4_SSL server))"
      using connect_to_imap_effect [OF c] mk by auto
    show ?thesis
    proof (cases r')
      case None
      with Pair \<open>r = None\<close> inputs c
      have "main env t fs0 = (None, py_print Exiting_due_to_connection_issues s3)"
        by (simp add: main_def output_root_def)
      with tr have "filter P (calls (snd (main env t fs0))) = filter P tr" by simp
      with tr(2) show ?thesis by blast
    next
      case (Some mail)
      have sess: "session env t = Some mail"
        using inputs c Some connect_to_imap_result [of env server port username password ?s2]
        by (simp add: session_def)
      obtain s3' where c': "connect_to_imap env server port username password ?s2 = (Some mail, s3')"
        and m: "main env t fs0 =
          (case list_mailboxes env mail s3' of
             (mailboxes, mail1, s4) \<Rightarrow>
               if mailboxes = [] then (None, py_print No_mailboxes_found s4)
               else
                 (case fold (process_mailbox env (output_root env t)) mailboxes
                         (mail1, py_print (Found_mailboxes mailboxes) s4) of
                    (mail2, s6) \<Rightarrow>
                      (case imap_logout env mail2 of
                         (Some e, _) \<Rightarrow>
                           (None, py_print (Error_during_logout e) (called Call_logout s6))
                       | (None, _) \<Rightarrow>
                           (None, py_print Logged_out_successfully (called Call_logout s6)))))"
        using main_connected [OF inputs sess] Pair \<open>r = None\<close> by blast
      from c c' have [simp]: "s3' = s3" by simp
      obtain names mail1 s4 where l: "list_mailboxes env mail s3 = (names, mail1, s4)"
        by (cases "list_mailboxes env mail s3") auto
      have c4: "filter P (calls s4) = filter P tr"
        using list_mailboxes_effect [OF l] tr(1) P(1) by simp
      show ?thesis
      proof (cases "names = []")
        case True
        with m l have "main env t fs0 = (None, py_print No_mailboxes_found s4)" by simp
        with c4 have "filter P (calls (snd (main env t fs0))) = filter P tr" by simp
        with tr(2) show ?thesis by blast
      next
        case False
        let ?ms = "(mail1, py_print (Found_mailboxes names) s4)"
        obtain mail2 s6 where f:
          "fold (process_mailbox env (output_root env t)) names ?ms = (mail2, s6)"
          by (cases "fold (process_mailbox env (output_root env t)) names ?ms") auto
        have "filter P (calls s6) = filter P (calls s4) @ filter P (map Call_select names)"
          using fold_process_mailbox_filter [of P env "output_root env t" names ?ms, OF P(2,3)] f
          by simp
        then have c6: "filter P (calls s6) = filter P tr"
          using c4 filter_map_select_empty [of P names, OF P(4)] by simp
        have "calls (snd (main env t fs0)) = calls s6 @ [Call_logout]"
          using m l False f by (simp split: prod.splits option.splits)
        then have "filter P (calls (snd (main env t fs0))) = filter P tr @ filter P [Call_logout]"
          using c6 by simp
        with tr(2) show ?thesis by blast
      qed
    qed
  qed
qed

lemma main_login_calls:
  assumes "get_user_inputs t = (server, port, username, password)"
    and "Call_login u p \<in> set (calls (snd (main env t fs0)))"
  shows "u = username \<and> p = password"
proof -
  let ?P = "\<lambda>c. \<exists>u p. c = Call_login u p"
  obtain tr where tr:
    "set tr \<subseteq> insert (Call_login username password) (range (Call_IMAP4_SSL server))"
    "filter ?P (calls (snd (main env t fs0))) = filter ?P tr \<or>
     filter ?P (calls (snd (main env t fs0))) = filter ?P tr @ filter ?P [Call_logout]"
    using main_calls_outside_export [of t server port username password ?P env fs0] assms(1)
    by auto
  then have "filter ?P (calls (snd (main env t fs0))) = filter ?P tr" by auto
  moreover have "Call_login u p \<in> set (filter ?P (calls (snd (main env t fs0))))"
    using assms(2) by auto
  ultimately have "Call_login u p \<in> set tr" by auto
  with tr(1) show ?thesis by auto
qed

text \<open>
  C10. All four values that \<open>get_user_inputs\<close> returns are stripped: none begins or ends
  with a whitespace character (the port is the stripped text or, when that is empty,
  "993"). The password is stripped like the rest, and it is the stripped password that
  every login call of a run receives; so for a typed password whose first or last
  character is whitespace, the password used differs from the password typed.
\<close>

theorem inputs_are_stripped:
  assumes "get_user_inputs t = (server, port, username, password)"
  shows "server = strip (typed_server t) \<and> username = strip (typed_username t) \<and>
         password = strip (typed_password t) \<and>
         (\<forall>x\<in>{server, port, username, password}.
            x = [] \<or> (\<not> isspace (hd x) \<and> \<not> isspace (last x))) \<and>
         (\<forall>u p. Call_login u p \<in> set (calls (snd (main env t fs0))) \<longrightarrow>
            u = username \<and> p = strip (typed_password t)) \<and>
         (typed_password t \<noteq> [] \<and>
          (isspace (hd (typed_password t)) \<or> isspace (last (typed_password t))) \<longrightarrow>
            password \<noteq> typed_password t)"
proof -
  have eqs: "server = strip (typed_server t)" "username = strip (typed_username t)"
    "password = strip (typed_password t)"
    "port = (if strip (typed_port t) = [] then str ''993'' else strip (typed_port t))"
    using assms by (auto simp: get_user_inputs_def Let_def)
  have clean: "strip x = [] \<or> (\<not> isspace (hd (strip x)) \<and> \<not> isspace (last (strip x)))" for x
    using strip_ends [of x] by blast
  have p993: "\<not> isspace (hd (str ''993'')) \<and> \<not> isspace (last (str ''993''))"
    by (simp add: str_def isspace_def)
  have port: "port = [] \<or> (\<not> isspace (hd port) \<and> \<not> isspace (last port))"
    using eqs(4) clean [of "typed_port t"] p993 by (cases "strip (typed_port t) = []") auto
  have all: "\<forall>x\<in>{server, port, username, password}.
            x = [] \<or> (\<not> isspace (hd x) \<and> \<not> isspace (last x))"
    using eqs(1,2,3) clean port by auto
  have login: "\<forall>u p. Call_login u p \<in> set (calls (snd (main env t fs0))) \<longrightarrow>
            u = username \<and> p = strip (typed_password t)"
    using main_login_calls [OF assms] eqs(3) by blast
  have differs: "typed_password t \<noteq> [] \<and>
          (isspace (hd (typed_password t)) \<or> isspace (last (typed_password t))) \<longrightarrow>
            password \<noteq> typed_password t"
    using strip_changes [of "typed_password t"] eqs(3) by auto
  from eqs(1,2,3) all login differs show ?thesis by blast
qed

theorem inputs_are_stripped_witness:
  "get_user_inputs operator = (str ''imap.test'', str ''993'', str ''u@test'', str ''secret'') \<and>
   typed_password operator = str '' secret'' \<and>
   Call_login (str ''u@test'') (str ''secret'') \<in> set (calls (snd (main account operator no_files))) \<and>
   Call_login (str ''u@test'') (str '' secret'') \<notin> set (calls (snd (main account operator no_files)))"
  using inputs_are_stripped
    [of operator "str ''imap.test''" "str ''993''" "str ''u@test''" "str ''secret''"
        account no_files]
  by (simp add: model_defs demo_defs)

subsection \<open>Logging out\<close>

lemma main_skips_logout:
  assumes "get_user_inputs t = (server, port, username, password)"
    and "session env t = Some mail"
    and "fst (list_mailboxes env mail s) = []"
  shows "Call_logout \<notin> set (calls (snd (main env t fs0)))"
proof (cases "os_makedirs env (output_root env t) \<lparr>fs = fs0, stdout = [], calls = []\<rparr>")
  case (Pair r s1)
  note mk = os_makedirs_keeps [OF Pair]
  show ?thesis
  proof (cases r)
    case (Some e)
    with Pair assms(1) have "main env t fs0 = (Some e, s1)"
      by (simp add: main_def output_root_def)
    with mk show ?thesis by simp
  next
    case None
    with Pair obtain s3 where
      c: "connect_to_imap env server port username password
            (py_print (Emails_will_be_saved_in (output_root env t)) s1) = (Some mail, s3)"
      and m: "main env t fs0 =
        (case list_mailboxes env mail s3 of
           (mailboxes, mail1, s4) \<Rightarrow>
             if mailboxes = [] then (None, py_print No_mailboxes_found s4)
             else
               (case fold (process_mailbox env (output_root env t)) mailboxes
                       (mail1, py_print (Found_mailboxes mailboxes) s4) of
                  (mail2, s6) \<Rightarrow>
                    (case imap_logout env mail2 of
                       (Some e, _) \<Rightarrow>
                         (None, py_print (Error_during_logout e) (called Call_logout s6))
                     | (None, _) \<Rightarrow>
                         (None, py_print Logged_out_successfully (called Call_logout s6)))))"
      using main_connected [OF assms(1,2)] by blast
    obtain names mail1 s4 where l: "list_mailboxes env mail s3 = (names, mail1, s4)"
      by (cases "list_mailboxes env mail s3") auto
    have "names = []"
      using l assms(3) list_mailboxes_result [of env mail s3 s] by simp
    with m l have "main env t fs0 = (None, py_print No_mailboxes_found s4)" by simp
    moreover have "Call_logout \<notin> set (calls s4)"
      using list_mailboxes_effect [OF l] connect_to_imap_effect [OF c] mk by auto
    ultimately show ?thesis by simp
  qed
qed

lemma main_logs_out_once:
  assumes "get_user_inputs t = (server, port, username, password)"
    and "session env t = Some mail"
    and "fst (list_mailboxes env mail s) \<noteq> []"
    and "fst (main env t fs0) = None"
  shows "filter (\<lambda>c. c = Call_logout) (calls (snd (main env t fs0))) = [Call_logout]"
proof (cases "os_makedirs env (output_root env t) \<lparr>fs = fs0, stdout = [], calls = []\<rparr>")
  case (Pair r s1)
  note mk = os_makedirs_keeps [OF Pair]
  let ?P = "\<lambda>c. c = Call_logout"
  show ?thesis
  proof (cases r)
    case (Some e)
    with Pair assms(1) have "main env t fs0 = (Some e, s1)"
      by (simp add: main_def output_root_def)
    with assms(4) show ?thesis by simp
  next
    case None
    with Pair obtain s3 where
      c: "connect_to_imap env server port username password
            (py_print (Emails_will_be_saved_in (output_root env t)) s1) = (Some mail, s3)"
      and m: "main env t fs0 =
        (case list_mailboxes env mail s3 of
           (mailboxes, mail1, s4) \<Rightarrow>
             if mailboxes = [] then (None, py_print No_mailboxes_found s4)
             else
               (case fold (process_mailbox env (output_root env t)) mailboxes
                       (mail1, py_print (Found_mailboxes mailboxes) s4) of
                  (mail2, s6) \<Rightarrow>
                    (case imap_logout env mail2 of
                       (Some e, _) \<Rightarrow>
                         (None, py_print (Error_during_logout e) (called Call_logout s6))
                     | (None, _) \<Rightarrow>
                         (None, py_print Logged_out_successfully (called Call_logout s6)))))"
      using main_connected [OF assms(1,2)] by blast
    obtain names mail1 s4 where l: "list_mailboxes env mail s3 = (names, mail1, s4)"
      by (cases "list_mailboxes env mail s3") auto
    have ne: "names \<noteq> []"
      using l assms(3) list_mailboxes_result [of env mail s3 s] by simp
    have c4: "filter ?P (calls s4) = []"
      using list_mailboxes_effect [OF l] connect_to_imap_effect [OF c] mk
      by (auto simp: filter_empty_conv)
    let ?ms = "(mail1, py_print (Found_mailboxes names) s4)"
    obtain mail2 s6 where f:
      "fold (process_mailbox env (output_root env t)) names ?ms = (mail2, s6)"
      by (cases "fold (process_mailbox env (output_root env t)) names ?ms") auto
    have "filter ?P (calls s6) = filter ?P (calls s4) @ filter ?P (map Call_select names)"
      using fold_process_mailbox_filter [of ?P env "output_root env t" names ?ms] f by simp
    then have c6: "filter ?P (calls s6) = []"
      using c4 filter_map_select_empty [of ?P names] by simp
    have "calls (snd (main env t fs0)) = calls s6 @ [Call_logout]"
      using m l ne f by (simp split: prod.splits option.splits)
    with c6 show ?thesis by simp
  qed
qed

text \<open>
  C3. The claim asks for exactly one logout on every exit path after a successful login.
  \<open>main\<close> logs out exactly once when the mailbox list is not empty
  (\<open>main_logs_out_once\<close>), but on the path where the list comes back empty it returns
  without logging out (\<open>main_skips_logout\<close>). The run below is that path: the server
  accepts the login and answers the list command with NO; the calls made end with the
  list command and contain no logout.
\<close>

theorem logout_skipped_on_empty_list:
  "session (scripted NO (\<lambda>_. OK []) (OK []) (\<lambda>_. OK [])) operator = Some () \<and>
   main (scripted NO (\<lambda>_. OK []) (OK []) (\<lambda>_. OK [])) operator no_files =
     (None,
      \<lparr>fs = \<lparr>dirs = {str ''imap_test_u_test''}, files = Map.empty\<rparr>,
       stdout = [Emails_will_be_saved_in (str ''imap_test_u_test''), Connected_and_logged_in,
                 Failed_to_retrieve_mailboxes, No_mailboxes_found],
       calls = [Call_IMAP4_SSL (str ''imap.test'') 993,
                Call_login (str ''u@test'') (str ''secret''), Call_list]\<rparr>) \<and>
   count_list
     (calls (snd (main (scripted NO (\<lambda>_. OK []) (OK []) (\<lambda>_. OK [])) operator no_files)))
     Call_logout = 0"
  by (simp add: model_defs demo_defs session_def)

subsection \<open>The files and directories written\<close>











subsection \<open>When the mailbox directory is created\<close>




subsection \<open>Paths\<close>














subsection \<open>Where files are written\<close>










end
